theory Spec2Isabelle
  imports Complex_Main
begin

section \<open>Python strings\<close>

text \<open>
  Descriptions, categories and raw dates are Python \<open>str\<close> values, modelled as
  \<^typ>\<open>string\<close>. The model covers ASCII text: \<open>str.lower\<close> maps \<open>A\<close>..\<open>Z\<close> to
  \<open>a\<close>..\<open>z\<close> and leaves every other character alone.
\<close>

definition lower_char :: "char \<Rightarrow> char" where
  "lower_char c =
     (if (65::nat) \<le> of_char c \<and> of_char c \<le> (90::nat)
      then char_of (of_char c + (32::nat)) else c)"

definition lower :: "string \<Rightarrow> string" where
  "lower s = map lower_char s"

text \<open>\<open>s.startswith(k)\<close>.\<close>

fun startswith :: "string \<Rightarrow> string \<Rightarrow> bool" where
  "startswith s [] = True"
| "startswith [] (k # ks) = False"
| "startswith (c # cs) (k # ks) = (c = k \<and> startswith cs ks)"

text \<open>The substring test \<open>k in s\<close>: \<open>k\<close> starts at some position of \<open>s\<close>.\<close>

fun str_in :: "string \<Rightarrow> string \<Rightarrow> bool" where
  "str_in k [] = (k = [])"
| "str_in k (c # cs) = (startswith (c # cs) k \<or> str_in k cs)"

text \<open>
  The ASCII characters that \<open>str.strip()\<close> removes: tab, line feed, vertical tab, form
  feed, carriage return, the four separators \<open>0x1c\<close>..\<open>0x1f\<close> and the space.
\<close>

definition is_space :: "char \<Rightarrow> bool" where
  "is_space c = (of_char c \<in> {9, 10, 11, 12, 13, 28, 29, 30, 31, 32 :: nat})"

definition strip :: "string \<Rightarrow> string" where
  "strip s = rev (dropWhile is_space (rev (dropWhile is_space s)))"

text \<open>\<open>s.split(sep)\<close> for a one-character separator; the result is never empty.\<close>

fun split :: "char \<Rightarrow> string \<Rightarrow> string list" where
  "split sep [] = [[]]"
| "split sep (c # cs) =
     (if c = sep then [] # split sep cs
      else (case split sep cs of p # ps \<Rightarrow> (c # p) # ps | [] \<Rightarrow> [[c]]))"

definition is_digit :: "char \<Rightarrow> bool" where
  "is_digit c = ((48::nat) \<le> of_char c \<and> of_char c \<le> (57::nat))"

definition digit_val :: "char \<Rightarrow> int" where
  "digit_val c = int (of_char c) - 48"

text \<open>
  The digits of a decimal literal after its first digit: digits, each optionally
  preceded by one underscore (\<open>int("1_000") == 1000\<close>).
\<close>

fun digits_value :: "int \<Rightarrow> string \<Rightarrow> int option" where
  "digits_value acc [] = Some acc"
| "digits_value acc [c] = (if is_digit c then Some (10 * acc + digit_val c) else None)"
| "digits_value acc (c # d # ds) =
     (if is_digit c then digits_value (10 * acc + digit_val c) (d # ds)
      else if c = CHR ''_'' \<and> is_digit d then digits_value (10 * acc + digit_val d) ds
      else None)"

definition unsigned :: "string \<Rightarrow> int option" where
  "unsigned s =
     (case s of [] \<Rightarrow> None
      | c # cs \<Rightarrow> if is_digit c then digits_value (digit_val c) cs else None)"

text \<open>
  \<open>int(s)\<close> on a string: whitespace around the number is skipped, one sign is allowed,
  the rest is a decimal literal. \<open>None\<close> stands for the \<open>ValueError\<close> that \<open>int\<close> raises.
  The whitespace that \<open>int\<close> skips in ASCII text is that of C: tab, line feed, vertical
  tab, form feed, carriage return and space. The separators \<open>0x1c\<close>..\<open>0x1f\<close>, which
  \<open>str.strip()\<close> removes, are not skipped: \<open>int("\x1c5")\<close> raises.
\<close>

definition is_c_space :: "char \<Rightarrow> bool" where
  "is_c_space c = (of_char c \<in> {9, 10, 11, 12, 13, 32 :: nat})"

definition py_int :: "string \<Rightarrow> int option" where
  "py_int s =
     (case rev (dropWhile is_c_space (rev (dropWhile is_c_space s))) of [] \<Rightarrow> None
      | c # cs \<Rightarrow>
          if c = CHR ''+'' then unsigned cs
          else if c = CHR ''-'' then map_option uminus (unsigned cs)
          else unsigned (c # cs))"

section \<open>Keyword categorizer (\<open>advanced_categorization.py\<close>)\<close>

text \<open>
  \<open>CATEGORY_KEYWORDS\<close> is a dict literal; Python dicts iterate in insertion order, so
  the table is an association list in the order of the source.
\<close>

definition CATEGORY_KEYWORDS :: "(string \<times> string list) list" where
  "CATEGORY_KEYWORDS =
    [(''Food'', [''restaurant'', ''dinner'', ''lunch'', ''cafe'', ''meal'', ''snack'',
                 ''food'', ''breakfast'']),
     (''Transport'', [''uber'', ''taxi'', ''bus'', ''train'', ''ride'', ''metro'',
                      ''travel'', ''commute'']),
     (''Housing'', [''rent'', ''apartment'', ''housing'', ''mortgage'', ''lease'',
                    ''property'']),
     (''Utilities'', [''electricity'', ''water'', ''utility'', ''bill'', ''internet'',
                      ''gas'']),
     (''Entertainment'', [''movie'', ''theater'', ''concert'', ''event'', ''show'',
                          ''entertainment'']),
     (''Healthcare'', [''health'', ''clinic'', ''doctor'', ''hospital'', ''pharmacy'',
                       ''medicine'']),
     (''Education'', [''education'', ''tuition'', ''school'', ''books'', ''courses'']),
     (''Shopping'', [''shopping'', ''clothes'', ''electronics'', ''store'', ''mall'',
                     ''purchase'']),
     (''Insurance'', [''insurance'', ''life insurance'', ''health insurance'',
                      ''car insurance''])]"

text \<open>The closed category set (\<open>ALL_CATEGORIES\<close> of \<open>analytics_section.py\<close>).\<close>

definition ALL_CATEGORIES :: "string list" where
  "ALL_CATEGORIES =
    [''Food'', ''Transport'', ''Housing'', ''Utilities'', ''Entertainment'',
     ''Healthcare'', ''Education'', ''Shopping'', ''Insurance'', ''Other'']"

text \<open>
  The loop \<open>for category, keywords in CATEGORY_KEYWORDS.items()\<close> with its fallback
  \<open>return "Other"\<close> after the loop.
\<close>

fun first_category :: "(string \<times> string list) list \<Rightarrow> string \<Rightarrow> string" where
  "first_category [] lower_desc = ''Other''"
| "first_category ((category, keywords) # rest) lower_desc =
     (if list_ex (\<lambda>keyword. str_in keyword lower_desc) keywords then category
      else first_category rest lower_desc)"

definition advanced_categorize_expense :: "string \<Rightarrow> string" where
  "advanced_categorize_expense description =
     (if description = [] then ''Other''
      else first_category CATEGORY_KEYWORDS (lower description))"

section \<open>Dates and data frames\<close>

text \<open>
  A pandas \<open>Timestamp\<close>, reduced to its calendar day. The time of day is left out: the
  weekly, monthly and yearly buckets used below depend on the day only.
\<close>

record timestamp =
  year :: int
  month :: int
  day :: int

text \<open>
  A cell of the \<open>date\<close> column: a missing value (\<open>None\<close>, \<open>NaN\<close>, \<open>NaT\<close>), the text
  stored by the database, or a \<open>Timestamp\<close> once the column has been parsed.
\<close>

datatype cell = Null | Str string | Ts timestamp

text \<open>
  A row of the frame built from \<open>db.get_expenses()\<close> with the columns \<open>id\<close>, \<open>date\<close>,
  \<open>amount\<close>, \<open>category\<close>, \<open>description\<close>. Amounts are floats in the source. In the
  aggregation, the forecast, the comparison and the recommendation they are exact
  reals, so rounding is outside the model there; the anomaly detector, whose answer
  turns on an exact zero, rounds every operation.
\<close>

record expense =
  expense_id :: int
  date :: cell
  amount :: real
  category :: string
  description :: string

type_synonym dataframe = "expense list"

text \<open>
  \<open>pd.to_datetime(arg, format=..., errors="coerce")\<close> on a string is a function of the
  pandas library. It is a parameter of every definition that calls it: the first
  argument is the string, the second the \<open>format\<close> (\<open>None\<close> when the call gives none, and
  pandas infers the layout), the result \<open>None\<close> is \<open>NaT\<close>.
\<close>

type_synonym to_datetime = "string \<Rightarrow> string option \<Rightarrow> timestamp option"

section \<open>Date parsing (\<open>utils.py\<close>)\<close>

text \<open>
  The inner function \<open>try_parse\<close> of \<open>parse_dates\<close>. A missing value gives \<open>NaT\<close>; a
  \<open>Timestamp\<close> is not a string and \<open>pd.to_datetime\<close> returns it unchanged. The branch
  \<open>except ValueError\<close> is the case where \<open>int(parts[0])\<close> has no value.
\<close>

definition try_parse :: "to_datetime \<Rightarrow> cell \<Rightarrow> timestamp option" where
  "try_parse to_datetime date_str =
     (case date_str of
        Null \<Rightarrow> None
      | Ts t \<Rightarrow> Some t
      | Str s \<Rightarrow>
          if strip s = [] then None
          else if length s = 10 then
            (case py_int (hd (split CHR ''-'' s)) of
               Some n \<Rightarrow>
                 if n > 31 then to_datetime s (Some ''%Y-%m-%d'')
                 else to_datetime s (Some ''%d-%m-%Y'')
             | None \<Rightarrow> to_datetime s None)
          else to_datetime s None)"

text \<open>
  \<open>parse_dates\<close>: \<open>df[column] = df[column].apply(try_parse)\<close>, then
  \<open>df.dropna(subset=[column])\<close>. Every frame here has the \<open>date\<close> column.
\<close>

definition apply_try_parse :: "to_datetime \<Rightarrow> expense \<Rightarrow> expense" where
  "apply_try_parse to_datetime r =
     r\<lparr>date := (case try_parse to_datetime (date r) of None \<Rightarrow> Null | Some t \<Rightarrow> Ts t)\<rparr>"

definition parse_dates :: "to_datetime \<Rightarrow> dataframe \<Rightarrow> dataframe" where
  "parse_dates to_datetime df =
     filter (\<lambda>r. date r \<noteq> Null) (map (apply_try_parse to_datetime) df)"

section \<open>Resampling (pandas)\<close>

text \<open>
  The frequencies the source passes to \<open>resample\<close>: \<open>"W-Mon"\<close> (weeks ending on a
  Monday), \<open>"M"\<close> (calendar months, labelled by their end) and \<open>"Y"\<close> (calendar years).
\<close>

datatype freq = W_Mon | MonthEnd | YearEnd

definition is_leap :: "int \<Rightarrow> bool" where
  "is_leap y = (y mod 4 = 0 \<and> (y mod 100 \<noteq> 0 \<or> y mod 400 = 0))"

definition days_in_month :: "int \<Rightarrow> int \<Rightarrow> int" where
  "days_in_month y m =
     (if m = 2 then (if is_leap y then 29 else 28)
      else if m = 4 \<or> m = 6 \<or> m = 9 \<or> m = 11 then 30 else 31)"

text \<open>The proleptic Gregorian day number (Python's \<open>date.toordinal\<close>); day 1 is a Monday.\<close>

definition toordinal :: "timestamp \<Rightarrow> int" where
  "toordinal t =
     (year t - 1) * 365 + (year t - 1) div 4 - (year t - 1) div 100 + (year t - 1) div 400
     + sum_list (map (days_in_month (year t)) [1..month t - 1]) + day t"

text \<open>
  The bucket of a timestamp, as a number that counts the periods of the frequency
  consecutively: months since year 0, years, and weeks (Tuesday to Monday) since day 1.
  A bucket with a smaller number starts earlier.
\<close>

fun period :: "freq \<Rightarrow> timestamp \<Rightarrow> int" where
  "period MonthEnd t = year t * 12 + (month t - 1)"
| "period YearEnd t = year t"
| "period W_Mon t = (toordinal t + 5) div 7"

text \<open>The label pandas gives a monthly bucket: the last day of the month.\<close>

definition month_end :: "int \<Rightarrow> timestamp" where
  "month_end p =
     \<lparr>year = p div 12, month = p mod 12 + 1, day = days_in_month (p div 12) (p mod 12 + 1)\<rparr>"

text \<open>
  \<open>df.set_index("date")\<close> restricted to the \<open>amount\<close> column: the rows that carry a
  timestamp, in order. \<open>resample\<close> ignores rows whose index is \<open>NaT\<close>.
\<close>

definition set_index_date :: "dataframe \<Rightarrow> (timestamp \<times> real) list" where
  "set_index_date df =
     concat (map (\<lambda>r. case date r of Ts t \<Rightarrow> [(t, amount r)] | _ \<Rightarrow> []) df)"

text \<open>
  \<open>.resample(freq).sum()\<close> on the \<open>amount\<close> column: pandas lays out every bucket from
  the one of the earliest row to the one of the latest row, in order, and sums the rows
  of each; a bucket without rows has the sum 0. An empty frame gives an empty result.
\<close>

definition resample_sum :: "freq \<Rightarrow> (timestamp \<times> real) list \<Rightarrow> (int \<times> real) list" where
  "resample_sum f rows =
     (if rows = [] then []
      else map (\<lambda>p. (p, sum_list (map snd (filter (\<lambda>row. period f (fst row) = p) rows))))
             [Min (set (map (\<lambda>row. period f (fst row)) rows)) ..
              Max (set (map (\<lambda>row. period f (fst row)) rows))])"

text \<open>
  The aggregation idiom of the source, \<open>parse_dates(data, "date")\<close>, \<open>set_index("date")\<close>,
  \<open>resample(freq).sum()\<close> (\<open>ml.py\<close> lines 32 to 34, \<open>show_analysis\<close>), for any frequency.
\<close>

definition aggregate :: "to_datetime \<Rightarrow> freq \<Rightarrow> dataframe \<Rightarrow> (int \<times> real) list" where
  "aggregate to_datetime f data = resample_sum f (set_index_date (parse_dates to_datetime data))"

section \<open>Forecasting (\<open>ml.py\<close>)\<close>

text \<open>
  Exceptions are values. \<open>ValueError\<close> carries the message; the messages of the two
  errors that scikit-learn raises on an input without samples are shortened. A function
  that can raise has a result of the type \<open>error + 'a\<close>: \<open>Inl e\<close> means that the call does
  not return and the exception \<open>e\<close> propagates to its caller, \<open>Inr v\<close> that it returns \<open>v\<close>.
\<close>

datatype error = ValueError string

text \<open>
  \<open>LinearRegression().fit(X, y)\<close> with one feature: the least-squares line through the
  points, as its coefficient and intercept. When all \<open>x\<close> coincide (a single sample) the
  minimum-norm solution has the coefficient 0.
\<close>

definition fit :: "real list \<Rightarrow> real list \<Rightarrow> real \<times> real" where
  "fit xs ys =
     (let x_mean = sum_list xs / real (length xs);
          y_mean = sum_list ys / real (length ys);
          sxx = sum_list (map (\<lambda>x. (x - x_mean) * (x - x_mean)) xs);
          sxy = sum_list (map (\<lambda>(x, y). (x - x_mean) * (y - y_mean)) (zip xs ys));
          coef = (if sxx = 0 then 0 else sxy / sxx)
      in (coef, y_mean - coef * x_mean))"

definition predict :: "real \<times> real \<Rightarrow> real \<Rightarrow> real" where
  "predict model x = fst model * x + snd model"

text \<open>
  \<open>forecast_expenses(data, periods)\<close>. The result frame has the columns \<open>date\<close> and
  \<open>forecast\<close>. \<open>last_date + MonthBegin(1)\<close> is the first day of the month after the last
  bucket, and \<open>date_range(..., periods, freq="M")\<close> lists the ends of the months from
  there on.
\<close>

definition forecast_expenses ::
  "to_datetime \<Rightarrow> dataframe \<Rightarrow> int \<Rightarrow> error + (timestamp \<times> real) list" where
  "forecast_expenses to_datetime data periods =
     (if data = [] then Inl (ValueError ''No data available for forecasting.'')
      else
        let monthly = resample_sum MonthEnd (set_index_date (parse_dates to_datetime data));
            month_num = map real [0..<length monthly]
        in if monthly = [] then Inl (ValueError ''Found array with 0 sample(s)'')
           else
             let model = fit month_num (map snd monthly);
                 future = map real [length monthly..<length monthly + nat periods]
             in if future = [] then Inl (ValueError ''Found array with 0 sample(s)'')
                else
                  let pred = map (predict model) future;
                      last_date = Max (set (map fst monthly));
                      future_dates =
                        map (\<lambda>i. month_end (last_date + 1 + int i)) [0..<nat periods]
                  in Inr (zip future_dates pred))"



section \<open>Anomaly detection (\<open>ml.py\<close>)\<close>

text \<open>
  Whether an amount is flagged depends on whether a computed standard deviation is
  exactly zero, so this part models the rounding of binary floating point. A finite
  double is the real number it stands for, and every operation rounds its exact result
  to the nearest double, ties to the even mantissa (53 bits). The range of the exponent
  is not modelled: there is no overflow and no underflow.
\<close>

definition round_half_even :: "real \<Rightarrow> int" where
  "round_half_even r =
     (let f = \<lfloor>r\<rfloor>
      in if r - of_int f < 1 / 2 then f
         else if r - of_int f > 1 / 2 then f + 1
         else if even f then f else f + 1)"

definition fl :: "real \<Rightarrow> real" where
  "fl x =
     (if x = 0 then 0
      else
        let ulp = 2 powr (of_int \<lfloor>log 2 \<bar>x\<bar>\<rfloor> - 52)
        in of_int (round_half_even (x / ulp)) * ulp)"

text \<open>
  A float that may be \<open>NaN\<close>: \<open>None\<close> is \<open>NaN\<close>. Arithmetic with \<open>NaN\<close> gives \<open>NaN\<close>, every
  comparison with \<open>NaN\<close> is false, and \<open>NaN\<close> is truthy (only zero is falsy).
\<close>

type_synonym pyfloat = "real option"

definition fadd :: "pyfloat \<Rightarrow> pyfloat \<Rightarrow> pyfloat" where
  "fadd a b =
     (case a of None \<Rightarrow> None
      | Some x \<Rightarrow> (case b of None \<Rightarrow> None | Some y \<Rightarrow> Some (fl (x + y))))"

definition fmul :: "pyfloat \<Rightarrow> pyfloat \<Rightarrow> pyfloat" where
  "fmul a b =
     (case a of None \<Rightarrow> None
      | Some x \<Rightarrow> (case b of None \<Rightarrow> None | Some y \<Rightarrow> Some (fl (x * y))))"

definition fgt :: "pyfloat \<Rightarrow> pyfloat \<Rightarrow> bool" where
  "fgt a b = (case a of None \<Rightarrow> False | Some x \<Rightarrow> (case b of None \<Rightarrow> False | Some y \<Rightarrow> x > y))"

definition truthy :: "pyfloat \<Rightarrow> bool" where
  "truthy a = (case a of None \<Rightarrow> True | Some x \<Rightarrow> x \<noteq> 0)"

text \<open>
  The sum of a float array as numpy computes it, for fewer than 16 values (the rule
  below sums fewer than 10): up to 7 values are added from left to right; from 8 values
  on, the first eight are added in pairs, the pairs in pairs, and the rest from left to
  right.
\<close>

definition np_sum :: "real list \<Rightarrow> real" where
  "np_sum a =
     (if length a < 8 then foldl (\<lambda>res x. fl (res + x)) 0 a
      else
        let res = fl (fl (fl (a ! 0 + a ! 1) + fl (a ! 2 + a ! 3))
                      + fl (fl (a ! 4 + a ! 5) + fl (a ! 6 + a ! 7)))
        in foldl (\<lambda>res x. fl (res + x)) res (drop 8 a))"

text \<open>
  \<open>Series.mean()\<close> and \<open>Series.std()\<close> of a series of amounts, as pandas computes them
  with numpy. The mean is the sum divided by the count, \<open>NaN\<close> for an empty series. The
  standard deviation is the sample one: the mean is subtracted from every value, the
  differences are squared and summed, the sum is divided by \<open>n - 1\<close>, and the square root
  is taken; it is \<open>NaN\<close> for fewer than two values.
\<close>

definition series_mean :: "real list \<Rightarrow> pyfloat" where
  "series_mean hist =
     (if hist = [] then None else Some (fl (np_sum hist / real (length hist))))"

definition series_std :: "real list \<Rightarrow> pyfloat" where
  "series_std hist =
     (if length hist < 2 then None
      else
        let avg = fl (np_sum hist / real (length hist));
            sqr = map (\<lambda>x. fl (fl (avg - x) * fl (avg - x))) hist
        in Some (fl (sqrt (fl (np_sum sqr / real (length hist - 1))))))"

text \<open>
  \<open>fraud_detection(new_amount, hist)\<close>. The isolation forest of scikit-learn is the
  parameter \<open>isolation_forest\<close>: fitted on the history, it answers \<open>-1\<close> (outlier) or \<open>1\<close> for the new
  amount.
\<close>

definition fraud_detection :: "(real list \<Rightarrow> real \<Rightarrow> int) \<Rightarrow> real \<Rightarrow> real list \<Rightarrow> bool" where
  "fraud_detection isolation_forest new_amount hist =
     (if hist = [] \<or> length hist < 10 then
        let mean = series_mean hist; std = series_std hist
        in (if truthy std then fgt (Some new_amount) (fadd mean (fmul (Some 2) std)) else False)
      else isolation_forest hist new_amount = - 1)"

section \<open>Budget recommendation and comparison (\<open>ml.py\<close>)\<close>

text \<open>
  Line 154, \<open>data.groupby("category").resample("M").sum()["amount"]\<close>, on the parsed
  frame: \<open>groupby\<close> makes one group per category that occurs in the frame and
  resamples each group on its own. The monthly totals of one category:
\<close>

definition monthly_by_category :: "dataframe \<Rightarrow> string \<Rightarrow> (int \<times> real) list" where
  "monthly_by_category parsed cat =
     resample_sum MonthEnd (set_index_date (filter (\<lambda>r. category r = cat) parsed))"

text \<open>
  \<open>personalized_budget_recommendation(data)\<close>: the resulting dict as a map from the
  category. A category has an entry when it has a group, that is some monthly total.
\<close>

definition personalized_budget_recommendation :: "to_datetime \<Rightarrow> dataframe \<Rightarrow> (string \<rightharpoonup> real)" where
  "personalized_budget_recommendation to_datetime data =
     (if data = [] then Map.empty
      else
        let parsed = parse_dates to_datetime data
        in (\<lambda>cat.
              let monthly = map snd (monthly_by_category parsed cat)
              in if monthly = [] then None
                 else Some (sum_list monthly / real (length monthly) * 0.9)))"

text \<open>
  \<open>compare_expenses(data)\<close> returns a string. The three fixed messages are kept as they
  are; the formatted report is kept as the values it prints: current, previous, change
  in percent, and the suggestion.
\<close>

datatype comparison = Message string | Report real real real string

definition compare_expenses :: "to_datetime \<Rightarrow> dataframe \<Rightarrow> comparison" where
  "compare_expenses to_datetime data =
     (if data = [] then Message ''No data available for comparison.''
      else
        let monthly = map snd (resample_sum MonthEnd
                                 (set_index_date (parse_dates to_datetime data)))
        in if length monthly < 2 then Message ''Not enough data for comparison.''
           else
             let current = monthly ! (length monthly - 1);
                 previous = monthly ! (length monthly - 2)
             in if previous = 0 then Message ''No expenses in the previous month to compare.''
                else
                  let change = ((current - previous) / previous) * 100;
                      suggestion =
                        (if change < 0 then ''Great job! Your expenses decreased.''
                         else ''Your expenses increased. Consider reviewing your spending habits.'')
                  in Report current previous change suggestion)"

section \<open>A date reader for the examples\<close>

text \<open>
  The examples below need one concrete \<open>to_datetime\<close>. This one reads ten-character
  numeric dates with two-digit month and day and a year that a \<open>Timestamp\<close> can hold:
  \<open>DD-MM-YYYY\<close> under the format \<open>%d-%m-%Y\<close>, \<open>YYYY-MM-DD\<close> under \<open>%Y-%m-%d\<close>, and
  \<open>YYYY-MM-DD\<close> or \<open>YYYY/MM/DD\<close> without a format. On these pandas gives the same
  day. Everything else is \<open>NaT\<close> here, which is not a statement about pandas; the
  general theorems hold for every \<open>to_datetime\<close>.
\<close>

definition number :: "string \<Rightarrow> int option" where
  "number s =
     (if s \<noteq> [] \<and> list_all is_digit s
      then Some (foldl (\<lambda>a c. 10 * a + digit_val c) 0 s) else None)"

definition civil :: "int option \<Rightarrow> int option \<Rightarrow> int option \<Rightarrow> timestamp option" where
  "civil yo mo do =
     (case yo of None \<Rightarrow> None | Some y \<Rightarrow>
      (case mo of None \<Rightarrow> None | Some m \<Rightarrow>
       (case do of None \<Rightarrow> None | Some d \<Rightarrow>
          if 1678 \<le> y \<and> y \<le> 2261 \<and> 1 \<le> m \<and> m \<le> 12 \<and> 1 \<le> d \<and> d \<le> days_in_month y m
          then Some \<lparr>year = y, month = m, day = d\<rparr> else None)))"

definition year_first :: "char \<Rightarrow> string \<Rightarrow> timestamp option" where
  "year_first sep s =
     (if s ! 4 = sep \<and> s ! 7 = sep
      then civil (number (take 4 s)) (number (take 2 (drop 5 s))) (number (drop 8 s))
      else None)"

definition day_first :: "char \<Rightarrow> string \<Rightarrow> timestamp option" where
  "day_first sep s =
     (if s ! 2 = sep \<and> s ! 5 = sep
      then civil (number (drop 6 s)) (number (take 2 (drop 3 s))) (number (take 2 s))
      else None)"

definition to_datetime_numeric :: to_datetime where
  "to_datetime_numeric s format =
     (if length s \<noteq> 10 then None
      else if format = Some ''%d-%m-%Y'' then day_first CHR ''-'' s
      else if format = Some ''%Y-%m-%d'' then year_first CHR ''-'' s
      else if format = None then
        (case year_first CHR ''-'' s of Some t \<Rightarrow> Some t | None \<Rightarrow> year_first CHR ''/'' s)
      else None)"

text \<open>
  Four stored expenses for the examples: one in January 2024, one whose date cannot be
  read, and two in March 2024, one of them written day first.
\<close>

definition example_expenses :: dataframe where
  "example_expenses =
    [\<lparr>expense_id = 1, date = Str ''2024-01-15'', amount = 100, category = ''Food'',
       description = ''lunch''\<rparr>,
     \<lparr>expense_id = 2, date = Str ''not a date'', amount = 7, category = ''Food'',
       description = ''snack''\<rparr>,
     \<lparr>expense_id = 3, date = Str ''20-03-2024'', amount = 50, category = ''Transport'',
       description = ''taxi''\<rparr>,
     \<lparr>expense_id = 4, date = Str ''2024-03-02'', amount = 25, category = ''Food'',
       description = ''dinner''\<rparr>]"

text \<open>
  Four stored expenses whose monthly totals from November 2023 to January 2024 are 100,
  200 and 300.
\<close>

definition linear_expenses :: dataframe where
  "linear_expenses =
    [\<lparr>expense_id = 1, date = Str ''2023-11-15'', amount = 100, category = ''Food'',
       description = ''lunch''\<rparr>,
     \<lparr>expense_id = 2, date = Str ''2023-12-10'', amount = 150, category = ''Housing'',
       description = ''rent''\<rparr>,
     \<lparr>expense_id = 3, date = Str ''24-12-2023'', amount = 50, category = ''Food'',
       description = ''dinner''\<rparr>,
     \<lparr>expense_id = 4, date = Str ''2024-01-05'', amount = 300, category = ''Housing'',
       description = ''rent''\<rparr>]"

text \<open>
  Two stored expenses with the monthly totals 200 (April 2024) and 100 (May 2024).
\<close>

definition falling_expenses :: dataframe where
  "falling_expenses =
    [\<lparr>expense_id = 1, date = Str ''2024-04-30'', amount = 200, category = ''Housing'',
       description = ''rent''\<rparr>,
     \<lparr>expense_id = 2, date = Str ''01-05-2024'', amount = 100, category = ''Food'',
       description = ''meal''\<rparr>]"

text \<open>
  Stored expenses whose Housing totals are 100 (April 2024) and 200 (May 2024); the
  only Food expense has a date that cannot be read.
\<close>

definition rent_expenses :: dataframe where
  "rent_expenses =
    [\<lparr>expense_id = 1, date = Str ''2024-04-30'', amount = 100, category = ''Housing'',
       description = ''rent''\<rparr>,
     \<lparr>expense_id = 2, date = Str ''01-05-2024'', amount = 120, category = ''Housing'',
       description = ''rent''\<rparr>,
     \<lparr>expense_id = 3, date = Str ''2024-05-20'', amount = 80, category = ''Housing'',
       description = ''property tax''\<rparr>,
     \<lparr>expense_id = 4, date = Str ''someday'', amount = 30, category = ''Food'',
       description = ''cafe''\<rparr>]"

section \<open>Properties of the keyword categorizer\<close>

lemma startswith_iff: "startswith s k \<longleftrightarrow> (\<exists>q. s = k @ q)"
  by (induction s k rule: startswith.induct) auto

lemma str_in_iff: "str_in k s \<longleftrightarrow> (\<exists>p q. s = p @ k @ q)"
proof (induction s)
  case Nil
  then show ?case by auto
next
  case (Cons c cs)
  show ?case
  proof
    assume "str_in k (c # cs)"
    then consider "startswith (c # cs) k" | "str_in k cs" by auto
    then show "\<exists>p q. c # cs = p @ k @ q"
    proof cases
      case 1
      then obtain q where "c # cs = k @ q" by (auto simp: startswith_iff)
      then have "c # cs = [] @ k @ q" by simp
      then show ?thesis by blast
    next
      case 2
      then obtain p q where "cs = p @ k @ q" using Cons.IH by blast
      then have "c # cs = (c # p) @ k @ q" by simp
      then show ?thesis by blast
    qed
  next
    assume "\<exists>p q. c # cs = p @ k @ q"
    then obtain p q where pq: "c # cs = p @ k @ q" by blast
    show "str_in k (c # cs)"
    proof (cases p)
      case Nil
      with pq have "startswith (c # cs) k" by (auto simp: startswith_iff)
      then show ?thesis by simp
    next
      case (Cons a p')
      with pq have "cs = p' @ k @ q" by simp
      then have "str_in k cs" using Cons.IH by blast
      then show ?thesis by simp
    qed
  qed
qed

lemma first_category_closed:
  "first_category tbl s \<in> insert ''Other'' (set (map fst tbl))"
  by (induction tbl s rule: first_category.induct) auto

lemma first_category_no_match:
  "\<forall>i<length tbl. \<forall>k\<in>set (snd (tbl ! i)). \<not> str_in k s \<Longrightarrow> first_category tbl s = ''Other''"
proof (induction tbl s rule: first_category.induct)
  case (1 lower_desc)
  then show ?case by simp
next
  case (2 category kws rest lower_desc)
  from "2.prems" have here: "\<forall>k\<in>set kws. \<not> str_in k lower_desc"
    by fastforce
  from "2.prems" have "\<forall>i<length rest. \<forall>k\<in>set (snd (rest ! i)). \<not> str_in k lower_desc"
    by fastforce
  with here "2.IH" show ?case by (simp add: list_ex_iff)
qed

lemma first_category_first_match:
  "i < length tbl \<Longrightarrow> \<exists>k\<in>set (snd (tbl ! i)). str_in k s \<Longrightarrow>
   \<forall>j<i. \<forall>k\<in>set (snd (tbl ! j)). \<not> str_in k s \<Longrightarrow>
   first_category tbl s = fst (tbl ! i)"
proof (induction tbl s arbitrary: i rule: first_category.induct)
  case (1 lower_desc)
  then show ?case by simp
next
  case (2 category kws rest lower_desc)
  show ?case
  proof (cases i)
    case 0
    with "2.prems" show ?thesis by (auto simp: list_ex_iff)
  next
    case (Suc n)
    with "2.prems"(3) have here: "\<forall>k\<in>set kws. \<not> str_in k lower_desc"
      by fastforce
    from Suc "2.prems"(3) have "\<forall>j<n. \<forall>k\<in>set (snd (rest ! j)). \<not> str_in k lower_desc"
      by fastforce
    with Suc "2.prems" here "2.IH"[of n] show ?thesis by (simp add: list_ex_iff)
  qed
qed

lemma keywords_visible_all:
  "list_all (\<lambda>e. list_all (\<lambda>k. k \<noteq> [] \<and> \<not> is_space (hd k)) (snd e)) CATEGORY_KEYWORDS"
  by code_simp

lemma keywords_start_visible:
  assumes "i < length CATEGORY_KEYWORDS" "k \<in> set (snd (CATEGORY_KEYWORDS ! i))"
  shows "k \<noteq> [] \<and> \<not> is_space (hd k)"
proof -
  from assms(1) have "CATEGORY_KEYWORDS ! i \<in> set CATEGORY_KEYWORDS" by simp
  with keywords_visible_all assms(2) show ?thesis
    by (auto simp: list_all_iff)
qed

lemma lower_char_space: "is_space c \<Longrightarrow> lower_char c = c"
  by (auto simp: is_space_def lower_char_def)


lemma lower_blank: "\<forall>c\<in>set d. is_space c \<Longrightarrow> lower d = d"
  by (induction d) (auto simp: lower_def lower_char_space)

lemma categorize_first_match:
  "advanced_categorize_expense d \<in> set ALL_CATEGORIES \<and>
   map fst CATEGORY_KEYWORDS = butlast ALL_CATEGORIES \<and>
   (\<forall>i<length CATEGORY_KEYWORDS.
      (\<exists>k\<in>set (snd (CATEGORY_KEYWORDS ! i)). \<exists>p q. lower d = p @ k @ q) \<and>
      (\<forall>j<i. \<forall>k\<in>set (snd (CATEGORY_KEYWORDS ! j)). \<nexists>p q. lower d = p @ k @ q)
      \<longrightarrow> advanced_categorize_expense d = fst (CATEGORY_KEYWORDS ! i)) \<and>
   ((\<forall>i<length CATEGORY_KEYWORDS.
       \<forall>k\<in>set (snd (CATEGORY_KEYWORDS ! i)). \<nexists>p q. lower d = p @ k @ q)
      \<longrightarrow> advanced_categorize_expense d = ''Other'') \<and>
   ((\<forall>c\<in>set d. is_space c) \<longrightarrow> advanced_categorize_expense d = ''Other'')"
proof (intro conjI allI impI)
  have names: "map fst CATEGORY_KEYWORDS = butlast ALL_CATEGORIES"
    by (simp add: CATEGORY_KEYWORDS_def ALL_CATEGORIES_def)
  show "map fst CATEGORY_KEYWORDS = butlast ALL_CATEGORIES" by (rule names)
  have "first_category CATEGORY_KEYWORDS (lower d) \<in> insert ''Other'' (set (butlast ALL_CATEGORIES))"
    using first_category_closed[of CATEGORY_KEYWORDS "lower d"] by (simp only: names)
  then show "advanced_categorize_expense d \<in> set ALL_CATEGORIES"
    by (auto simp: advanced_categorize_expense_def ALL_CATEGORIES_def)
next
  fix i
  assume i: "i < length CATEGORY_KEYWORDS"
    and hit: "(\<exists>k\<in>set (snd (CATEGORY_KEYWORDS ! i)). \<exists>p q. lower d = p @ k @ q) \<and>
      (\<forall>j<i. \<forall>k\<in>set (snd (CATEGORY_KEYWORDS ! j)). \<nexists>p q. lower d = p @ k @ q)"
  from hit obtain k where k: "k \<in> set (snd (CATEGORY_KEYWORDS ! i))" "str_in k (lower d)"
    by (auto simp: str_in_iff)
  from keywords_start_visible[OF i k(1)] have "k \<noteq> []" by simp
  with k(2) have "d \<noteq> []" by (auto simp: lower_def)
  moreover from i hit have "first_category CATEGORY_KEYWORDS (lower d) = fst (CATEGORY_KEYWORDS ! i)"
    by (intro first_category_first_match) (auto simp: str_in_iff)
  ultimately show "advanced_categorize_expense d = fst (CATEGORY_KEYWORDS ! i)"
    by (simp add: advanced_categorize_expense_def)
next
  assume "\<forall>i<length CATEGORY_KEYWORDS.
       \<forall>k\<in>set (snd (CATEGORY_KEYWORDS ! i)). \<nexists>p q. lower d = p @ k @ q"
  then have "first_category CATEGORY_KEYWORDS (lower d) = ''Other''"
    by (intro first_category_no_match) (auto simp: str_in_iff)
  then show "advanced_categorize_expense d = ''Other''"
    by (simp add: advanced_categorize_expense_def)
next
  assume blank: "\<forall>c\<in>set d. is_space c"
  have "\<not> str_in k (lower d)"
    if "i < length CATEGORY_KEYWORDS" "k \<in> set (snd (CATEGORY_KEYWORDS ! i))" for i k
  proof
    assume "str_in k (lower d)"
    then obtain p q where "d = p @ k @ q"
      using lower_blank[OF blank] by (auto simp: str_in_iff)
    moreover from keywords_start_visible[OF that] have "k \<noteq> []" "\<not> is_space (hd k)" by simp_all
    ultimately have "hd k \<in> set d" "\<not> is_space (hd k)" by simp_all
    with blank show False by blast
  qed
  then have "first_category CATEGORY_KEYWORDS (lower d) = ''Other''"
    by (intro first_category_no_match) blast
  then show "advanced_categorize_expense d = ''Other''"
    by (simp add: advanced_categorize_expense_def)
qed

lemma lower_pointwise:
  "length (lower d) = length d \<and>
   (\<forall>i<length d. lower d ! i =
      (if (65::nat) \<le> of_char (d ! i) \<and> of_char (d ! i) \<le> (90::nat)
       then char_of (of_char (d ! i) + (32::nat)) else d ! i))"
  by (simp add: lower_def lower_char_def)

lemma lower_alphabet: "lower ''ABCDEFGHIJKLMNOPQRSTUVWXYZ'' = ''abcdefghijklmnopqrstuvwxyz''"
  by code_simp

text \<open>
  C1. For every description, the keyword categorizer returns a member of the closed
  category set. The table lists the categories in the order Food, Transport, Housing,
  Utilities, Entertainment, Healthcare, Education, Shopping, Insurance. The description
  is lower-cased: the lower-cased description has the same length, every letter \<open>A\<close>..\<open>Z\<close>
  (codes 65 to 90) is replaced by the letter \<open>a\<close>..\<open>z\<close> 32 codes higher, and every other
  character stays. The result is the first category of the table with a keyword that is
  a substring of the lower-cased description, and it is Other when no keyword is a
  substring of it, in particular for an empty or blank description.
\<close>

theorem advanced_categorize_expense_first_match:
  "advanced_categorize_expense d \<in> set ALL_CATEGORIES \<and>
   map fst CATEGORY_KEYWORDS = butlast ALL_CATEGORIES \<and>
   length (lower d) = length d \<and>
   (\<forall>i<length d. lower d ! i =
      (if (65::nat) \<le> of_char (d ! i) \<and> of_char (d ! i) \<le> (90::nat)
       then char_of (of_char (d ! i) + (32::nat)) else d ! i)) \<and>
   lower ''ABCDEFGHIJKLMNOPQRSTUVWXYZ'' = ''abcdefghijklmnopqrstuvwxyz'' \<and>
   (\<forall>i<length CATEGORY_KEYWORDS.
      (\<exists>k\<in>set (snd (CATEGORY_KEYWORDS ! i)). \<exists>p q. lower d = p @ k @ q) \<and>
      (\<forall>j<i. \<forall>k\<in>set (snd (CATEGORY_KEYWORDS ! j)). \<nexists>p q. lower d = p @ k @ q)
      \<longrightarrow> advanced_categorize_expense d = fst (CATEGORY_KEYWORDS ! i)) \<and>
   ((\<forall>i<length CATEGORY_KEYWORDS.
       \<forall>k\<in>set (snd (CATEGORY_KEYWORDS ! i)). \<nexists>p q. lower d = p @ k @ q)
      \<longrightarrow> advanced_categorize_expense d = ''Other'') \<and>
   ((\<forall>c\<in>set d. is_space c) \<longrightarrow> advanced_categorize_expense d = ''Other'')"
  using categorize_first_match[of d] lower_pointwise[of d] lower_alphabet by blast

theorem advanced_categorize_expense_first_match_witness:
  "advanced_categorize_expense ''UBER Ride to the Airport'' = ''Transport'' \<and>
   advanced_categorize_expense ''LUNCH'' = ''Food'' \<and>
   lower ''LUNCH at the Cafe'' = ''lunch at the cafe'' \<and>
   advanced_categorize_expense ''Bought a new pair of shoes'' = ''Other'' \<and>
   advanced_categorize_expense ''   '' = ''Other'' \<and>
   advanced_categorize_expense ''Health Insurance'' \<in> set ALL_CATEGORIES"
proof -
  let ?u = "''UBER Ride to the Airport''" and ?b = "''Bought a new pair of shoes''"
  let ?l = "''LUNCH''"
  have one: "(1::nat) < length CATEGORY_KEYWORDS" and zero: "(0::nat) < length CATEGORY_KEYWORDS"
    by (simp_all add: CATEGORY_KEYWORDS_def)
  have "str_in ''uber'' (lower ?u)" by code_simp
  moreover have "''uber'' \<in> set (snd (CATEGORY_KEYWORDS ! 1))"
    by (simp add: CATEGORY_KEYWORDS_def)
  ultimately have hit: "\<exists>k\<in>set (snd (CATEGORY_KEYWORDS ! 1)). \<exists>p q. lower ?u = p @ k @ q"
    unfolding str_in_iff by blast
  have "list_all (\<lambda>k. \<not> str_in k (lower ?u)) (snd (CATEGORY_KEYWORDS ! 0))"
    by code_simp
  then have before: "\<forall>j<1::nat. \<forall>k\<in>set (snd (CATEGORY_KEYWORDS ! j)). \<nexists>p q. lower ?u = p @ k @ q"
    by (simp add: list_all_iff str_in_iff)
  have "advanced_categorize_expense ?u = fst (CATEGORY_KEYWORDS ! 1)"
    using advanced_categorize_expense_first_match[of ?u] one hit before by blast
  moreover have "fst (CATEGORY_KEYWORDS ! 1) = ''Transport''"
    by (simp add: CATEGORY_KEYWORDS_def)
  ultimately have transport: "advanced_categorize_expense ?u = ''Transport''"
    by simp
  have "str_in ''lunch'' (lower ?l)" by code_simp
  moreover have "''lunch'' \<in> set (snd (CATEGORY_KEYWORDS ! 0))"
    by (simp add: CATEGORY_KEYWORDS_def)
  ultimately have "\<exists>k\<in>set (snd (CATEGORY_KEYWORDS ! 0)). \<exists>p q. lower ?l = p @ k @ q"
    unfolding str_in_iff by blast
  then have "advanced_categorize_expense ?l = fst (CATEGORY_KEYWORDS ! 0)"
    using advanced_categorize_expense_first_match[of ?l] zero by blast
  moreover have "fst (CATEGORY_KEYWORDS ! 0) = ''Food''"
    by (simp add: CATEGORY_KEYWORDS_def)
  ultimately have food: "advanced_categorize_expense ?l = ''Food''"
    by simp
  have cafe: "lower ''LUNCH at the Cafe'' = ''lunch at the cafe''"
    by code_simp
  have "list_all (\<lambda>e. list_all (\<lambda>k. \<not> str_in k (lower ?b)) (snd e)) CATEGORY_KEYWORDS"
    by code_simp
  then have "\<forall>e\<in>set CATEGORY_KEYWORDS. \<forall>k\<in>set (snd e). \<not> str_in k (lower ?b)"
    by (simp add: list_all_iff)
  then have "\<forall>i<length CATEGORY_KEYWORDS.
      \<forall>k\<in>set (snd (CATEGORY_KEYWORDS ! i)). \<nexists>p q. lower ?b = p @ k @ q"
    unfolding str_in_iff using nth_mem by blast
  then have other: "advanced_categorize_expense ?b = ''Other''"
    using advanced_categorize_expense_first_match[of ?b] by blast
  have "\<forall>c\<in>set ''   ''. is_space c" by (simp add: is_space_def)
  then have blank: "advanced_categorize_expense ''   '' = ''Other''"
    using advanced_categorize_expense_first_match[of "''   ''"] by blast
  from transport food cafe other blank
    advanced_categorize_expense_first_match[of "''Health Insurance''"]
  show ?thesis by blast
qed

section \<open>Properties of the aggregation\<close>

lemma sum_list_single_hit:
  "distinct ps \<Longrightarrow>
   sum_list (map (\<lambda>p. if k = p then a else 0) ps) = (if k \<in> set ps then a else (0::real))"
  by (induction ps) auto

lemma bucket_sums_total:
  fixes rows :: "('a \<times> real) list" and g :: "'a \<times> real \<Rightarrow> int"
  assumes "distinct ps" "\<forall>row\<in>set rows. g row \<in> set ps"
  shows "sum_list (map (\<lambda>p. sum_list (map snd (filter (\<lambda>row. g row = p) rows))) ps)
         = sum_list (map snd rows)"
  using assms(2)
proof (induction rows)
  case Nil
  then show ?case by simp
next
  case (Cons r rs)
  have "sum_list (map (\<lambda>p. sum_list (map snd (filter (\<lambda>row. g row = p) (r # rs)))) ps)
      = sum_list (map (\<lambda>p. (if g r = p then snd r else 0)
                          + sum_list (map snd (filter (\<lambda>row. g row = p) rs))) ps)"
    by (intro arg_cong[where f=sum_list] map_cong) auto
  also have "\<dots> = sum_list (map (\<lambda>p. if g r = p then snd r else 0) ps)
                 + sum_list (map (\<lambda>p. sum_list (map snd (filter (\<lambda>row. g row = p) rs))) ps)"
    by (simp add: sum_list_addf)
  also have "\<dots> = snd r + sum_list (map snd rs)"
    using Cons assms(1) by (simp add: sum_list_single_hit)
  finally show ?case by simp
qed

lemma resample_sum_periods:
  "rows \<noteq> [] \<Longrightarrow>
   map fst (resample_sum f rows) =
     [Min (set (map (\<lambda>row. period f (fst row)) rows)) ..
      Max (set (map (\<lambda>row. period f (fst row)) rows))]"
  by (simp add: resample_sum_def o_def)

lemma resample_sum_Nil: "resample_sum f [] = []"
  by (simp add: resample_sum_def)

lemma resample_sum_eq_Nil: "resample_sum f rows = [] \<longleftrightarrow> rows = []"
proof
  assume empty: "resample_sum f rows = []"
  show "rows = []"
  proof (rule ccontr)
    assume ne: "rows \<noteq> []"
    let ?K = "set (map (\<lambda>row. period f (fst row)) rows)"
    from ne have "finite ?K" "?K \<noteq> {}" by simp_all
    then have "Min ?K \<le> Max ?K" by simp
    then have "[Min ?K .. Max ?K] \<noteq> []" by simp
    with ne empty resample_sum_periods[of rows f] show False
      by (metis map_is_Nil_conv)
  qed
next
  assume "rows = []" then show "resample_sum f rows = []" by (simp add: resample_sum_Nil)
qed

lemma period_in_range:
  assumes "row \<in> set rows"
  shows "period f (fst row) \<in> set [Min (set (map (\<lambda>row. period f (fst row)) rows)) ..
                                    Max (set (map (\<lambda>row. period f (fst row)) rows))]"
proof -
  let ?K = "set (map (\<lambda>row. period f (fst row)) rows)"
  from assms have "period f (fst row) \<in> ?K" by auto
  moreover have "finite ?K" by simp
  ultimately have "Min ?K \<le> period f (fst row)" "period f (fst row) \<le> Max ?K"
    by (auto intro: Min_le Max_ge)
  then show ?thesis by simp
qed

lemma resample_sum_total:
  "sum_list (map snd (resample_sum f rows)) = sum_list (map snd rows)"
proof (cases "rows = []")
  case True
  then show ?thesis by (simp add: resample_sum_def)
next
  case False
  let ?ps = "[Min (set (map (\<lambda>row. period f (fst row)) rows)) ..
              Max (set (map (\<lambda>row. period f (fst row)) rows))]"
  have "sum_list (map snd (resample_sum f rows))
      = sum_list (map (\<lambda>p. sum_list (map snd (filter (\<lambda>row. period f (fst row) = p) rows))) ?ps)"
    using False by (simp add: resample_sum_def o_def)
  also have "\<dots> = sum_list (map snd rows)"
  proof (rule bucket_sums_total)
    show "distinct ?ps" by simp
    show "\<forall>row\<in>set rows. period f (fst row) \<in> set ?ps"
      using period_in_range by blast
  qed
  finally show ?thesis .
qed

lemma set_index_date_parse_dates:
  "set_index_date (parse_dates td df) =
     concat (map (\<lambda>r. case try_parse td (date r) of None \<Rightarrow> [] | Some t \<Rightarrow> [(t, amount r)]) df)"
  by (induction df)
     (auto simp: set_index_date_def parse_dates_def apply_try_parse_def split: option.splits)

lemma parsed_amounts:
  "sum_list (map snd (set_index_date (parse_dates td df))) =
     sum_list (map amount (filter (\<lambda>r. try_parse td (date r) \<noteq> None) df))"
  unfolding set_index_date_parse_dates
  by (induction df) (auto split: option.splits)

lemma parse_dates_keeps:
  "map expense_id (parse_dates td df) =
     map expense_id (filter (\<lambda>r. try_parse td (date r) \<noteq> None) df)"
  by (induction df) (auto simp: parse_dates_def apply_try_parse_def split: option.splits)

text \<open>
  C2. For every record set and every frequency (week, month, year), the totals of
  \<open>aggregate\<close> add up to the sum of \<open>amount\<close> over exactly the records whose date
  \<open>try_parse\<close> can read, and these are the records that \<open>parse_dates\<close> keeps: a record
  is left out only when its date cannot be parsed.
\<close>

theorem aggregate_total:
  "sum_list (map snd (aggregate to_datetime f data)) =
     sum_list (map amount (filter (\<lambda>r. try_parse to_datetime (date r) \<noteq> None) data)) \<and>
   map expense_id (parse_dates to_datetime data) =
     map expense_id (filter (\<lambda>r. try_parse to_datetime (date r) \<noteq> None) data)"
  by (simp add: aggregate_def resample_sum_total parsed_amounts parse_dates_keeps)


theorem aggregate_total_witness:
  "map expense_id (parse_dates to_datetime_numeric example_expenses) = [1, 3, 4] \<and>
   sum_list (map snd (aggregate to_datetime_numeric W_Mon example_expenses)) = 175 \<and>
   sum_list (map snd (aggregate to_datetime_numeric MonthEnd example_expenses)) = 175 \<and>
   sum_list (map snd (aggregate to_datetime_numeric YearEnd example_expenses)) = 175"
proof -
  have "sum_list (map amount (filter (\<lambda>r. try_parse to_datetime_numeric (date r) \<noteq> None)
          example_expenses)) = 175"
    by code_simp
  moreover have "map expense_id (filter (\<lambda>r. try_parse to_datetime_numeric (date r) \<noteq> None)
          example_expenses) = [1, 3, 4]"
    by code_simp
  ultimately show ?thesis
    using aggregate_total[of to_datetime_numeric _ example_expenses] by simp
qed

lemma hd_upto: "i \<le> j \<Longrightarrow> hd [i..j] = i"
  by (simp add: upto_rec1)

lemma last_upto: "i \<le> j \<Longrightarrow> last [i..j] = j"
  by (simp add: upto_rec2)


lemma resample_sum_empty_bucket:
  assumes "(p, a) \<in> set (resample_sum f rows)"
    and "p \<notin> set (map (\<lambda>row. period f (fst row)) rows)"
  shows "a = 0"
proof -
  from assms(2) have "filter (\<lambda>row. period f (fst row) = p) rows = []"
    by (auto simp: filter_empty_conv)
  with assms(1) show ?thesis
    by (auto simp: resample_sum_def split: if_splits)
qed

lemma resample_sum_ends:
  assumes "rows \<noteq> []"
  shows "fst (hd (resample_sum f rows)) = Min (set (map (\<lambda>row. period f (fst row)) rows))"
    and "fst (last (resample_sum f rows)) = Max (set (map (\<lambda>row. period f (fst row)) rows))"
proof -
  let ?K = "set (map (\<lambda>row. period f (fst row)) rows)"
  from assms have "finite ?K" "?K \<noteq> {}" by simp_all
  then have le: "Min ?K \<le> Max ?K" by simp
  have ne: "resample_sum f rows \<noteq> []" using assms by (simp add: resample_sum_eq_Nil)
  have "fst (hd (resample_sum f rows)) = hd (map fst (resample_sum f rows))"
    using ne by (simp add: hd_map)
  then show "fst (hd (resample_sum f rows)) = Min ?K"
    using le by (simp add: resample_sum_periods[OF assms] hd_upto)
  have "fst (last (resample_sum f rows)) = last (map fst (resample_sum f rows))"
    using ne by (simp add: last_map)
  then show "fst (last (resample_sum f rows)) = Max ?K"
    using le by (simp add: resample_sum_periods[OF assms] last_upto)
qed

text \<open>
  C3, as amended. For every record set and frequency, the output of \<open>aggregate\<close> is
  strictly ascending by period (so it has no duplicate period) and holds every period
  in which a record falls. It is empty only when no record has a readable date;
  otherwise its first and its last period each hold a record and it lists every period
  from the first to the last without a gap. A period in between that holds no record
  appears with the total 0.
\<close>

theorem aggregate_periods:
  fixes to_datetime :: to_datetime
  shows
  "(let out = aggregate to_datetime f data;
        ks = map (\<lambda>row. period f (fst row)) (set_index_date (parse_dates to_datetime data))
    in sorted_wrt (<) (map fst out) \<and>
       set ks \<subseteq> set (map fst out) \<and>
       (out = [] \<longleftrightarrow> ks = []) \<and>
       (out \<noteq> [] \<longrightarrow>
          fst (hd out) \<in> set ks \<and> fst (last out) \<in> set ks \<and>
          map fst out = [fst (hd out) .. fst (last out)]) \<and>
       (\<forall>(p, a) \<in> set out. p \<notin> set ks \<longrightarrow> a = 0))"
proof -
  let ?rows = "set_index_date (parse_dates to_datetime data)"
  let ?ks = "map (\<lambda>row. period f (fst row)) ?rows"
  let ?out = "resample_sum f ?rows"
  have sorted: "sorted_wrt (<) (map fst ?out)"
    by (cases "?rows = []") (simp_all add: resample_sum_Nil resample_sum_periods)
  have cover: "set ?ks \<subseteq> set (map fst ?out)"
  proof (cases "?rows = []")
    case True
    then show ?thesis by simp
  next
    case False
    show ?thesis
    proof
      fix k
      assume "k \<in> set ?ks"
      then obtain row where "row \<in> set ?rows" "k = period f (fst row)" by auto
      then show "k \<in> set (map fst ?out)"
        using period_in_range[of row ?rows f] by (simp only: resample_sum_periods[OF False])
    qed
  qed
  have empty: "?out = [] \<longleftrightarrow> ?ks = []"
    by (simp add: resample_sum_eq_Nil)
  have ends: "fst (hd ?out) \<in> set ?ks \<and> fst (last ?out) \<in> set ?ks \<and>
      map fst ?out = [fst (hd ?out) .. fst (last ?out)]" if "?out \<noteq> []"
  proof -
    from that have ne: "?rows \<noteq> []" by (simp add: resample_sum_eq_Nil)
    then have "finite (set ?ks)" "set ?ks \<noteq> {}" by simp_all
    then have "Min (set ?ks) \<in> set ?ks" "Max (set ?ks) \<in> set ?ks"
      by (rule Min_in, rule Max_in)
    then show ?thesis
      by (simp only: resample_sum_ends[OF ne] resample_sum_periods[OF ne] simp_thms)
  qed
  have zero: "\<forall>(p, a) \<in> set ?out. p \<notin> set ?ks \<longrightarrow> a = 0"
    using resample_sum_empty_bucket[of _ _ f ?rows] by blast
  from sorted cover empty ends zero show ?thesis
    unfolding aggregate_def Let_def by blast
qed

text \<open>
  C3 as stated fails. In the example the records fall in January and March 2024 (months
  24288 and 24290), and the output has February (24289), a period with no record, with
  the total 0.
\<close>

theorem aggregate_periods_counterexample:
  "aggregate to_datetime_numeric MonthEnd example_expenses
     = [(24288, 100), (24289, 0), (24290, 75)] \<and>
   map (\<lambda>row. period MonthEnd (fst row))
     (set_index_date (parse_dates to_datetime_numeric example_expenses))
     = [24288, 24290, 24290]"
  by code_simp

theorem aggregate_periods_witness:
  "map fst (aggregate to_datetime_numeric MonthEnd example_expenses) = [24288, 24289, 24290] \<and>
   sorted_wrt (<) (map fst (aggregate to_datetime_numeric MonthEnd example_expenses)) \<and>
   fst (hd (aggregate to_datetime_numeric MonthEnd example_expenses)) = 24288 \<and>
   fst (last (aggregate to_datetime_numeric MonthEnd example_expenses)) = 24290 \<and>
   snd (aggregate to_datetime_numeric MonthEnd example_expenses ! 1) = 0"
proof -
  have out: "aggregate to_datetime_numeric MonthEnd example_expenses
      = [(24288, 100), (24289, 0), (24290, 75)]"
    by code_simp
  have ks: "map (\<lambda>row. period MonthEnd (fst row))
      (set_index_date (parse_dates to_datetime_numeric example_expenses)) = [24288, 24290, 24290]"
    by code_simp
  show ?thesis
    using aggregate_periods[of to_datetime_numeric MonthEnd example_expenses]
    unfolding Let_def out ks by simp
qed

section \<open>Properties of the forecast\<close>









lemma resample_sum_Max:
  assumes "rows \<noteq> []"
  shows "Max (set (map fst (resample_sum f rows))) = fst (last (resample_sum f rows))"
proof -
  let ?K = "set (map (\<lambda>row. period f (fst row)) rows)"
  from assms have "finite ?K" "?K \<noteq> {}" by simp_all
  then have le: "Min ?K \<le> Max ?K" by simp
  then have "Max (set [Min ?K .. Max ?K]) = Max ?K"
    by (intro Max_eqI) auto
  then show ?thesis
    by (simp only: resample_sum_periods[OF assms] resample_sum_ends(2)[OF assms])
qed

lemma period_month_end: "period MonthEnd (month_end p) = p"
  by (simp add: month_end_def)

lemma fit_line: "fit [0, 1, 2] [100, 200, 300] = (100, 100)"
  by (simp add: fit_def)

text \<open>
  C5. For every record set whose monthly totals are 100, 200, 300, \<open>forecast_expenses\<close>
  with one period fits the least-squares line over the month numbers 0, 1, 2, which has
  the coefficient 100 and the intercept 100 and passes through the three totals, and
  predicts 400. The date of the prediction is the end of the month that follows the
  last observed bucket.
\<close>

theorem forecast_expenses_linear:
  assumes "data \<noteq> []"
    and "map snd (aggregate to_datetime MonthEnd data) = [100, 200, 300]"
  shows "forecast_expenses to_datetime data 1
           = Inr [(month_end (fst (last (aggregate to_datetime MonthEnd data)) + 1), 400)] \<and>
         period MonthEnd (month_end (fst (last (aggregate to_datetime MonthEnd data)) + 1))
           = fst (last (aggregate to_datetime MonthEnd data)) + 1 \<and>
         fit (map real [0..<3]) [100, 200, 300] = (100, 100) \<and>
         map (predict (100, 100)) (map real [0..<4]) = [100, 200, 300, 400]"
proof -
  let ?rows = "set_index_date (parse_dates to_datetime data)"
  let ?monthly = "resample_sum MonthEnd ?rows"
  have upt3: "map real [0..<3] = [0, 1, 2]" and upt4: "map real [0..<4] = [0, 1, 2, 3]"
    by (simp_all add: upt_rec)
  from assms(2) have amounts: "map snd ?monthly = [100, 200, 300]"
    by (simp add: aggregate_def)
  then have len: "length ?monthly = 3"
    by (metis length_map length_Cons list.size(3) numeral_3_eq_3)
  then have ne: "?monthly \<noteq> []" by auto
  then have rows: "?rows \<noteq> []" by (simp add: resample_sum_eq_Nil)
  have last_date: "Max (set (map fst ?monthly)) = fst (last ?monthly)"
    by (rule resample_sum_Max[OF rows])
  have "forecast_expenses to_datetime data 1
          = Inr [(month_end (fst (last ?monthly) + 1), 400)]"
    using assms(1) ne last_date
    by (simp add: forecast_expenses_def Let_def amounts len upt3 fit_line predict_def)
  moreover have "map (predict (100, 100)) (map real [0..<4]) = [100, 200, 300, 400]"
    by (simp add: upt4 predict_def)
  ultimately show ?thesis
    by (simp only: aggregate_def period_month_end upt3 fit_line simp_thms)
qed

theorem forecast_expenses_linear_witness:
  "forecast_expenses to_datetime_numeric linear_expenses 1
     = Inr [(\<lparr>year = 2024, month = 2, day = 29\<rparr>, 400)]"
proof -
  have ne: "linear_expenses \<noteq> []" by (simp add: linear_expenses_def)
  have out: "aggregate to_datetime_numeric MonthEnd linear_expenses
      = [(24286, 100), (24287, 200), (24288, 300)]"
    by code_simp
  then have amounts: "map snd (aggregate to_datetime_numeric MonthEnd linear_expenses)
      = [100, 200, 300]"
    by simp
  have "month_end (24288 + 1) = \<lparr>year = 2024, month = 2, day = 29\<rparr>"
    by (simp add: month_end_def days_in_month_def is_leap_def)
  then show ?thesis
    using forecast_expenses_linear[OF ne amounts] by (simp add: out)
qed

section \<open>Properties of the anomaly detector\<close>

lemma fl_at:
  assumes "2 powr of_int e \<le> \<bar>x\<bar>" "\<bar>x\<bar> < 2 powr (of_int e + 1)"
  shows "fl x = of_int (round_half_even (x / 2 powr (of_int e - 52))) * 2 powr (of_int e - 52)"
proof -
  have pos: "0 < \<bar>x\<bar>" using assms(1) by (smt (verit) powr_gt_zero)
  then have "\<lfloor>log 2 \<bar>x\<bar>\<rfloor> = e"
    using assms by (subst floor_log_eq_powr_iff) auto
  with pos show ?thesis by (auto simp: fl_def Let_def)
qed

lemma round_half_even_bounds:
  "\<lfloor>r\<rfloor> \<le> round_half_even r" "round_half_even r \<le> \<lfloor>r\<rfloor> + 1"
  by (simp_all add: round_half_even_def Let_def)

lemma fl_positive:
  assumes "0 < x"
  shows "0 < fl x" and "fl x \<le> 2 * x"
proof -
  define e where "e = \<lfloor>log 2 \<bar>x\<bar>\<rfloor>"
  define u :: real where "u = 2 powr (of_int e - 52)"
  define r :: real where "r = x / u"
  have u: "0 < u" by (simp add: u_def)
  have "of_int e \<le> log 2 x" using assms by (simp add: e_def)
  then have "2 powr of_int e \<le> x"
    using assms by (simp add: le_log_iff)
  then have "2 powr of_int e / u \<le> r"
    using u by (simp add: r_def divide_right_mono)
  moreover have "2 powr of_int e / u = 2 powr 52"
    by (simp add: u_def powr_diff)
  ultimately have r: "2 ^ 52 \<le> r" by simp
  then have "(2 ^ 52 :: int) \<le> \<lfloor>r\<rfloor>" by (simp add: le_floor_iff)
  with round_half_even_bounds(1)[of r] have m: "2 ^ 52 \<le> round_half_even r" by linarith
  have eq: "fl x = of_int (round_half_even r) * u"
    using assms by (simp add: fl_def Let_def e_def u_def r_def)
  have "(0::int) < 2 ^ 52" by simp
  with m have "0 < round_half_even r" by linarith
  with u show "0 < fl x" by (simp add: eq)
  have "of_int (round_half_even r) \<le> r + 1"
    using round_half_even_bounds(2)[of r] by linarith
  also have "\<dots> \<le> 2 * r"
  proof -
    have "(1::real) \<le> 2 ^ 52" by simp
    with r show ?thesis by linarith
  qed
  finally have "of_int (round_half_even r) * u \<le> 2 * r * u"
    using u by (simp add: mult_right_mono)
  also have "2 * r * u = 2 * x" using u by (simp add: r_def)
  finally show "fl x \<le> 2 * x" by (simp add: eq)
qed

lemma fl_tenth: "fl (1 / 10) = 3602879701896397 / 2 ^ 55"
  by (subst fl_at[where e = "- 4"]) (simp_all add: powr_minus_divide round_half_even_def)


lemma fl_zero: "fl 0 = 0"
  by (simp add: fl_def)

lemma np_sum_3: "np_sum [a, b, c] = fl (fl (fl (0 + a) + b) + c)"
  by (simp add: np_sum_def)

lemma flagged_tenths:
  fixes d :: real
  defines "d \<equiv> fl (1 / 10)"
  shows "series_mean [d, d, d] = Some (7205759403792795 / 2 ^ 56)"
    and "\<exists>s. series_std [d, d, d] = Some s \<and> 0 < s \<and> s \<le> 2"
proof -
  have d: "d = 3602879701896397 / 2 ^ 55" by (simp add: d_def fl_tenth)
  have 1: "fl (0 + d) = d"
    unfolding d by (subst fl_at[where e = "- 4"]) (simp_all add: powr_minus_divide round_half_even_def)
  have 2: "fl (d + d) = 2 * d"
    unfolding d by (subst fl_at[where e = "- 3"]) (simp_all add: powr_minus_divide round_half_even_def)
  have 3: "fl (2 * d + d) = 1351079888211149 / 2 ^ 52"
    unfolding d by (subst fl_at[where e = "- 2"]) (simp_all add: powr_minus_divide round_half_even_def)
  have total: "np_sum [d, d, d] = 1351079888211149 / 2 ^ 52"
    by (simp only: np_sum_3 1 2 3)
  have avg: "fl (np_sum [d, d, d] / real (length [d, d, d])) = 7205759403792795 / 2 ^ 56"
    unfolding total
    by (subst fl_at[where e = "- 4"]) (simp_all add: powr_minus_divide round_half_even_def)
  show "series_mean [d, d, d] = Some (7205759403792795 / 2 ^ 56)"
    using avg by (simp add: series_mean_def)
  have dev: "fl (7205759403792795 / 2 ^ 56 - d) = 1 / 2 ^ 56"
    unfolding d by (subst fl_at[where e = "- 56"]) (simp_all add: powr_minus_divide round_half_even_def)
  have sq: "fl (1 / 2 ^ 56 * (1 / 2 ^ 56)) = (1 / 2 ^ 112 :: real)"
    by (subst fl_at[where e = "- 112"]) (simp_all add: powr_minus_divide round_half_even_def)
  define q :: real where "q = 1 / 2 ^ 112"
  have q1: "fl (0 + q) = q"
    unfolding q_def by (subst fl_at[where e = "- 112"]) (simp_all add: powr_minus_divide round_half_even_def)
  have q2: "fl (q + q) = 2 * q"
    unfolding q_def by (subst fl_at[where e = "- 111"]) (simp_all add: powr_minus_divide round_half_even_def)
  have q3: "fl (2 * q + q) = 3 * q"
    unfolding q_def by (subst fl_at[where e = "- 111"]) (simp_all add: powr_minus_divide round_half_even_def)
  have ssq: "np_sum [q, q, q] = 3 * q"
    by (simp only: np_sum_3 q1 q2 q3)
  have var: "fl (3 * q / real (length [d, d, d] - 1)) = 3 / 2 ^ 113"
    unfolding q_def by (subst fl_at[where e = "- 112"]) (simp_all add: powr_minus_divide round_half_even_def)
  have std: "series_std [d, d, d] = Some (fl (sqrt (3 / 2 ^ 113)))"
    unfolding series_std_def Let_def avg
    by (simp only: list.map dev sq q_def[symmetric] ssq var) simp
  have pos: "0 < sqrt (3 / 2 ^ 113 :: real)" by simp
  have "sqrt (3 / 2 ^ 113 :: real) \<le> sqrt 1" by (intro real_sqrt_le_mono) simp
  then have small: "sqrt (3 / 2 ^ 113 :: real) \<le> 1" by simp
  from fl_positive[OF pos] small
  have "0 < fl (sqrt (3 / 2 ^ 113))" "fl (sqrt (3 / 2 ^ 113)) \<le> 2" by linarith+
  with std show "\<exists>s. series_std [d, d, d] = Some s \<and> 0 < s \<and> s \<le> 2" by blast
qed


lemma np_sum_5: "np_sum [a, b, c, d, e] = fl (fl (fl (fl (fl (0 + a) + b) + c) + d) + e)"
  by (simp add: np_sum_def)

lemma series_std_fifties: "series_std [50, 50, 50, 50, 50] = Some 0"
proof -
  have 1: "fl (0 + 50) = 50"
    by (subst fl_at[where e = 5]) (simp_all add: powr_minus_divide round_half_even_def)
  have 2: "fl (50 + 50) = 100"
    by (subst fl_at[where e = 6]) (simp_all add: powr_minus_divide round_half_even_def)
  have 3: "fl (100 + 50) = 150"
    by (subst fl_at[where e = 7]) (simp_all add: powr_minus_divide round_half_even_def)
  have 4: "fl (150 + 50) = 200"
    by (subst fl_at[where e = 7]) (simp_all add: powr_minus_divide round_half_even_def)
  have 5: "fl (200 + 50) = 250"
    by (subst fl_at[where e = 7]) (simp_all add: powr_minus_divide round_half_even_def)
  have total: "np_sum [50, 50, 50, 50, 50] = 250"
    by (simp only: np_sum_5 1 2 3 4 5)
  have avg: "fl (250 / real (length [50, 50, 50, 50, 50 :: real])) = 50"
    by (subst fl_at[where e = 5]) (simp_all add: powr_minus_divide round_half_even_def)
  have zeros: "np_sum [0, 0, 0, 0, 0] = 0"
    by (simp add: np_sum_5 fl_zero)
  show ?thesis
    unfolding series_std_def Let_def total avg
    by (simp add: fl_zero zeros)
qed

text \<open>
  C6, at the failing input. The history holds three times the double nearest to 0.1.
  Its sum rounds, so the computed mean is one unit in the last place above the values,
  the computed standard deviation is not zero, the test \<open>if std\<close> passes, and 1000 is
  flagged. For the history 50, 50, 50, 50, 50 every step is exact, the standard
  deviation is zero and 1000 is not flagged.
\<close>

theorem fraud_detection_rounded_history:
  "fraud_detection isolation_forest 1000 [fl (1 / 10), fl (1 / 10), fl (1 / 10)] \<and>
   series_mean [fl (1 / 10), fl (1 / 10), fl (1 / 10)] = Some (7205759403792795 / 2 ^ 56) \<and>
   fl (1 / 10) = 3602879701896397 / 2 ^ 55 \<and>
   series_std [fl (1 / 10), fl (1 / 10), fl (1 / 10)] \<noteq> Some 0 \<and>
   series_std [50, 50, 50, 50, 50] = Some 0 \<and>
   \<not> fraud_detection isolation_forest 1000 [50, 50, 50, 50, 50]"
proof -
  let ?h = "[fl (1 / 10), fl (1 / 10), fl (1 / 10)]"
  from flagged_tenths(2) obtain s where s: "series_std ?h = Some s" "0 < s" "s \<le> 2"
    by blast
  have mean: "series_mean ?h = Some (7205759403792795 / 2 ^ 56)"
    by (rule flagged_tenths(1))
  define t :: real where "t = fl (2 * s)"
  define m :: real where "m = 7205759403792795 / 2 ^ 56"
  from s(2) have "0 < 2 * s" by simp
  from fl_positive[OF this] have "0 < t" "t \<le> 2 * (2 * s)" by (simp_all add: t_def)
  with s(3) have t: "0 < t" "t \<le> 8" by linarith+
  have m: "0 < m" "m < 1" by (simp_all add: m_def)
  with t have "0 < m + t" by linarith
  from fl_positive(2)[OF this] have "fl (m + t) \<le> 2 * (m + t)" .
  also from t(2) m(2) have "2 * (m + t) < 1000" by simp
  finally have "fl (m + t) < 1000" .
  then have "fl (7205759403792795 / 2 ^ 56 + fl (2 * s)) < 1000" by (simp only: m_def t_def)
  with s(1,2) mean have flagged: "fraud_detection isolation_forest 1000 ?h"
    by (simp add: fraud_detection_def truthy_def fgt_def fadd_def fmul_def)
  from s(1,2) have nonzero: "series_std ?h \<noteq> Some 0" by simp
  have calm: "\<not> fraud_detection isolation_forest 1000 [50, 50, 50, 50, 50]"
    by (simp add: fraud_detection_def series_std_fifties truthy_def)
  from flagged mean nonzero calm fl_tenth series_std_fifties show ?thesis by blast
qed


text \<open>
  C10. For every new amount, \<open>fraud_detection\<close> returns false when the history has
  fewer than 2 observations, the empty history included: the standard deviation is
  \<open>NaN\<close> then, \<open>NaN\<close> passes the test \<open>if std\<close>, and the comparison with \<open>NaN\<close> is false.
\<close>

theorem fraud_detection_short_history:
  "length hist < 2 \<Longrightarrow> \<not> fraud_detection isolation_forest new_amount hist"
  by (simp add: fraud_detection_def series_std_def truthy_def fmul_def fadd_def fgt_def
      split: option.splits)

theorem fraud_detection_short_history_witness:
  "\<not> fraud_detection (\<lambda>hist x. - 1) 1000000 [] \<and>
   \<not> fraud_detection (\<lambda>hist x. - 1) 1000000 [5] \<and>
   series_mean [] = None \<and> series_std [5] = None"
proof -
  have "length ([] :: real list) < 2" "length [5 :: real] < 2" by simp_all
  then show ?thesis
    using fraud_detection_short_history[of "[]" "\<lambda>hist x. - 1" 1000000]
      fraud_detection_short_history[of "[5]" "\<lambda>hist x. - 1" 1000000]
    by (simp add: series_mean_def series_std_def)
qed


section \<open>Properties of the comparison and the recommendation\<close>

lemma monthly_empty_frame:
  "resample_sum f (set_index_date (parse_dates td [])) = []"
  by (simp add: parse_dates_def set_index_date_def resample_sum_def)

text \<open>
  C7. \<open>compare_expenses\<close> answers with one of its two messages for missing data
  ("No data available for comparison.", "Not enough data for comparison.") exactly when
  there are fewer than 2 monthly buckets, and with "No expenses in the previous month to
  compare." exactly when there are at least 2 buckets and the total of the month before
  the last is zero. Otherwise it reports the last two monthly totals and the change in
  percent between them, with the favourable message exactly when the change is
  negative. For the monthly totals 200, 100 it reports -50 and the favourable message.
\<close>

theorem compare_expenses_cases:
  fixes to_datetime :: to_datetime
  shows
  "(let monthly = map snd (aggregate to_datetime MonthEnd data);
        current = monthly ! (length monthly - 1);
        previous = monthly ! (length monthly - 2);
        change = (current - previous) / previous * 100
    in (compare_expenses to_datetime data \<in>
           {Message ''No data available for comparison.'',
            Message ''Not enough data for comparison.''}
          \<longleftrightarrow> length monthly < 2) \<and>
       (compare_expenses to_datetime data = Message ''No expenses in the previous month to compare.''
          \<longleftrightarrow> 2 \<le> length monthly \<and> previous = 0) \<and>
       (2 \<le> length monthly \<and> previous \<noteq> 0 \<and> change < 0 \<longrightarrow>
          compare_expenses to_datetime data =
            Report current previous change ''Great job! Your expenses decreased.'') \<and>
       (2 \<le> length monthly \<and> previous \<noteq> 0 \<and> 0 \<le> change \<longrightarrow>
          compare_expenses to_datetime data =
            Report current previous change
              ''Your expenses increased. Consider reviewing your spending habits.'') \<and>
       (monthly = [200, 100] \<longrightarrow>
          compare_expenses to_datetime data =
            Report 100 200 (- 50) ''Great job! Your expenses decreased.''))"
proof (cases "data = []")
  case True
  then show ?thesis
    by (simp add: compare_expenses_def aggregate_def monthly_empty_frame Let_def)
next
  case False
  then show ?thesis
    by (auto simp: compare_expenses_def aggregate_def Let_def)
qed

theorem compare_expenses_cases_witness:
  "compare_expenses to_datetime_numeric falling_expenses
     = Report 100 200 (- 50) ''Great job! Your expenses decreased.'' \<and>
   compare_expenses to_datetime_numeric example_expenses
     = Message ''No expenses in the previous month to compare.'' \<and>
   compare_expenses to_datetime_numeric (take 2 example_expenses)
     = Message ''Not enough data for comparison.''"
proof -
  have falling: "map snd (aggregate to_datetime_numeric MonthEnd falling_expenses) = [200, 100]"
    by code_simp
  have gap: "map snd (aggregate to_datetime_numeric MonthEnd example_expenses) = [100, 0, 75]"
    by code_simp
  have single: "map snd (aggregate to_datetime_numeric MonthEnd (take 2 example_expenses)) = [100]"
    by code_simp
  have "compare_expenses to_datetime_numeric falling_expenses
     = Report 100 200 (- 50) ''Great job! Your expenses decreased.''"
    using compare_expenses_cases[of to_datetime_numeric falling_expenses]
    unfolding Let_def falling by simp
  moreover have "compare_expenses to_datetime_numeric example_expenses
     = Message ''No expenses in the previous month to compare.''"
    using compare_expenses_cases[of to_datetime_numeric example_expenses]
    unfolding Let_def gap by simp
  moreover have "length (map snd (aggregate to_datetime_numeric MonthEnd (take 2 example_expenses))) < 2"
    by (simp only: single) simp
  then have "compare_expenses to_datetime_numeric (take 2 example_expenses)
     \<in> {Message ''No data available for comparison.'',
         Message ''Not enough data for comparison.''}"
    using compare_expenses_cases[of to_datetime_numeric "take 2 example_expenses"]
    unfolding Let_def by blast
  moreover have "compare_expenses to_datetime_numeric (take 2 example_expenses)
     \<noteq> Message ''No data available for comparison.''"
    by code_simp
  ultimately show ?thesis by blast
qed


lemma set_index_date_category:
  "set_index_date (filter (\<lambda>r. category r = cat) (parse_dates td df)) =
     concat (map (\<lambda>r. if category r = cat
                        then (case try_parse td (date r) of None \<Rightarrow> [] | Some t \<Rightarrow> [(t, amount r)])
                        else []) df)"
  by (induction df)
     (auto simp: set_index_date_def parse_dates_def apply_try_parse_def split: option.splits)

lemma monthly_by_category_empty:
  "monthly_by_category (parse_dates td df) cat = [] \<longleftrightarrow>
     \<not> (\<exists>r\<in>set df. category r = cat \<and> try_parse td (date r) \<noteq> None)"
  unfolding monthly_by_category_def resample_sum_eq_Nil set_index_date_category
  by (induction df) (auto split: option.splits)

text \<open>
  C8. For every record set and category, the budget recommendation has an entry for
  the category exactly when the category has a monthly total, that is when one of its
  records has a readable date; the entry is 0.9 times the mean of the monthly totals of
  the category, and a category without monthly data has no entry. Monthly totals 100,
  200 give 135.
\<close>

theorem budget_recommendation_entries:
  fixes to_datetime :: to_datetime
  shows
  "(let monthly = map snd (monthly_by_category (parse_dates to_datetime data) cat);
        budget = personalized_budget_recommendation to_datetime data
    in (monthly \<noteq> [] \<longrightarrow>
          budget cat = Some (0.9 * (sum_list monthly / real (length monthly)))) \<and>
       (monthly = [] \<longrightarrow> budget cat = None) \<and>
       (monthly = [100, 200] \<longrightarrow> budget cat = Some 135) \<and>
       (cat \<in> dom budget \<longleftrightarrow>
          (\<exists>r\<in>set data. category r = cat \<and> try_parse to_datetime (date r) \<noteq> None)))"
proof (cases "data = []")
  case True
  then show ?thesis
    by (simp add: personalized_budget_recommendation_def monthly_by_category_def
        parse_dates_def set_index_date_def resample_sum_def)
next
  case False
  have dom: "cat \<in> dom (personalized_budget_recommendation to_datetime data) \<longleftrightarrow>
      (\<exists>r\<in>set data. category r = cat \<and> try_parse to_datetime (date r) \<noteq> None)"
    using False monthly_by_category_empty[of to_datetime data cat]
    by (auto simp: personalized_budget_recommendation_def Let_def dom_def)
  have "monthly = [100, 200] \<Longrightarrow> 0.9 * (sum_list monthly / real (length monthly)) = 135"
    for monthly :: "real list"
    by simp
  with False dom show ?thesis
    by (auto simp: personalized_budget_recommendation_def Let_def)
qed

theorem budget_recommendation_entries_witness:
  "personalized_budget_recommendation to_datetime_numeric rent_expenses ''Housing'' = Some 135 \<and>
   personalized_budget_recommendation to_datetime_numeric rent_expenses ''Food'' = None \<and>
   personalized_budget_recommendation to_datetime_numeric rent_expenses ''Other'' = None"
proof -
  have housing: "map snd (monthly_by_category (parse_dates to_datetime_numeric rent_expenses)
      ''Housing'') = [100, 200]"
    by code_simp
  have food: "map snd (monthly_by_category (parse_dates to_datetime_numeric rent_expenses)
      ''Food'') = []"
    by code_simp
  have other: "map snd (monthly_by_category (parse_dates to_datetime_numeric rent_expenses)
      ''Other'') = []"
    by code_simp
  have "personalized_budget_recommendation to_datetime_numeric rent_expenses ''Housing'' = Some 135"
    using budget_recommendation_entries[of to_datetime_numeric rent_expenses "''Housing''"]
    unfolding Let_def housing by blast
  moreover
  have "personalized_budget_recommendation to_datetime_numeric rent_expenses ''Food'' = None"
    using budget_recommendation_entries[of to_datetime_numeric rent_expenses "''Food''"]
    unfolding Let_def food by blast
  moreover
  have "personalized_budget_recommendation to_datetime_numeric rent_expenses ''Other'' = None"
    using budget_recommendation_entries[of to_datetime_numeric rent_expenses "''Other''"]
    unfolding Let_def other by blast
  ultimately show ?thesis by blast
qed


section \<open>Properties of the date parser\<close>




lemma py_int_whitespace:
  "py_int '' 5'' = Some 5 \<and> py_int (CHR 0x1C # ''5'') = None \<and> strip (CHR 0x1C # ''5'') = ''5''"
  by code_simp





end
